theory Spec2Isabelle
  imports Main
begin

section \<open>The command runner of nuxi: \<open>packages/nuxi/src/run.ts\<close>\<close>

text \<open>
  The source under study is one asynchronous function:
  \<^verbatim>\<open>
  export async function runCommand (command: string, argv = process.argv.slice(2),
                                    options: any): Promise<any> {
    const args = mri(argv)
    args.clear = false // used by dev
    args.config = options.config
    const cmd = await commands[command as Command]() as NuxtCommand
    if (!cmd) {
      throw new Error(`Invalid command ${command}`)
    }
    return cmd.invoke(args)
  }
  \<close>
  The argument parser \<open>mri\<close> is an external package and the registry \<open>commands\<close> lives in
  a module that is not part of the sources at hand, so both are parameters of the model.
\<close>

subsection \<open>JavaScript values\<close>

text \<open>
  Plain data as it occurs in parsed arguments and in \<open>options\<close>. Objects keep their
  properties in insertion order. Numbers are cut down to the integers and \<open>NaN\<close>: nothing
  below computes with them, only their truthiness is observed.
\<close>

datatype jsval =
    JUndefined
  | JNull
  | JBool bool
  | JNum int
  | JNaN
  | JStr string
  | JArr "jsval list"
  | JObj "(string \<times> jsval) list"

text \<open>The object returned by \<open>mri\<close>: flag names (and \<open>_\<close>) with their values.\<close>

type_synonym Argv = "(string \<times> jsval) list"

text \<open>
  Property assignment \<open>obj.k = v\<close> on a plain object: an existing property keeps its place
  and takes the new value, a new one is appended.
\<close>

primrec set_prop :: "(string \<times> jsval) list \<Rightarrow> string \<Rightarrow> jsval \<Rightarrow> (string \<times> jsval) list" where
  "set_prop [] k v = [(k, v)]"
| "set_prop (p # ps) k v = (if fst p = k then (k, v) # ps else p # set_prop ps k v)"

text \<open>Own-property lookup; \<open>None\<close> when the object has no such property.\<close>

definition get_prop :: "(string \<times> jsval) list \<Rightarrow> string \<Rightarrow> jsval option" where
  "get_prop obj k = map_of obj k"

text \<open>The conversion to a boolean that \<open>!cmd\<close> performs.\<close>

fun truthy :: "jsval \<Rightarrow> bool" where
  "truthy JUndefined = False"
| "truthy JNull = False"
| "truthy (JBool b) = b"
| "truthy (JNum n) = (n \<noteq> 0)"
| "truthy JNaN = False"
| "truthy (JStr s) = (s \<noteq> [])"
| "truthy (JArr xs) = True"
| "truthy (JObj ps) = True"

subsection \<open>Errors and promises\<close>

text \<open>
  The runtime's \<open>TypeError\<close>s that the body of \<open>runCommand\<close> can run into: reading a
  property of \<open>null\<close> or \<open>undefined\<close>, and calling something that is not a function. The
  string names the property, respectively the expression called.
\<close>

datatype type_error = Cannot_read string | Not_a_function string

text \<open>
  What a rejected \<open>runCommand\<close> carries. \<open>Error msg\<close> is the object built by
  \<open>new Error(msg)\<close> inside \<open>runCommand\<close>; \<open>TypeError\<close> comes from the runtime while it
  evaluates the body; \<open>Foreign e\<close> is an error \<open>e\<close> that a loader or a command raised,
  passed on as it is. Errors are objects with an identity in JavaScript, so an error made
  elsewhere is never the one made here, whatever its message.
\<close>

datatype 'e failure = Error string | TypeError type_error | Foreign 'e

text \<open>
  The fate of a promise. A synchronous throw inside an \<open>async\<close> function and a rejection
  are the same \<open>Rejected\<close>; a promise that never settles is \<open>Pending\<close>.
\<close>

datatype ('e, 'a) promise = Fulfilled 'a | Rejected 'e | Pending

text \<open>
  \<open>return p\<close> in an \<open>async\<close> function adopts the promise \<open>p\<close>: same value, same error,
  or pending for ever.
\<close>

fun adopt :: "('e, 'a) promise \<Rightarrow> ('e failure, 'a) promise" where
  "adopt (Fulfilled v) = Fulfilled v"
| "adopt (Rejected e) = Rejected (Foreign e)"
| "adopt Pending = Pending"

subsection \<open>Commands and the registry\<close>

text \<open>
  A command is an object with an \<open>invoke\<close> method. Running it acts on the world outside
  (\<open>'w\<close>: file system, servers, the console) and settles with a value or an error.
\<close>

record ('w, 'e) NuxtCommand =
  invoke :: "Argv \<Rightarrow> 'w \<Rightarrow> ('e, jsval) promise \<times> 'w"

text \<open>
  What awaiting a registry entry can yield: the cast \<open>as NuxtCommand\<close> is unchecked, so
  besides a command it may be any plain value.
\<close>

datatype ('w, 'e) loaded = Plain jsval | Command "('w, 'e) NuxtCommand"

text \<open>Its truthiness: a command is an object, hence truthy.\<close>

fun truthy_cmd :: "('w, 'e) loaded \<Rightarrow> bool" where
  "truthy_cmd (Plain v) = truthy v"
| "truthy_cmd (Command c) = True"

text \<open>
  The registry: \<open>commands[name]\<close> is a function to call (\<open>Some loader\<close>) or it is not
  (\<open>None\<close>: no such property, so \<open>undefined\<close>). The loader imports the command's module.
\<close>

type_synonym ('w, 'e) loader = "'w \<Rightarrow> ('e, ('w, 'e) loaded) promise \<times> 'w"

type_synonym ('w, 'e) Commands = "string \<Rightarrow> ('w, 'e) loader option"

subsection \<open>\<open>runCommand\<close>\<close>

text \<open>\<open>options.config\<close> with \<open>options: any\<close>: reading a property of \<open>null\<close> or
  \<open>undefined\<close> throws, a missing property reads as \<open>undefined\<close>.\<close>

fun read_config :: "jsval \<Rightarrow> type_error + jsval" where
  "read_config JUndefined = Inl (Cannot_read ''config'')"
| "read_config JNull = Inl (Cannot_read ''config'')"
| "read_config (JObj ps) = Inr (case get_prop ps ''config'' of None \<Rightarrow> JUndefined | Some v \<Rightarrow> v)"
| "read_config v = Inr JUndefined"

text \<open>The default parameter \<open>argv = process.argv.slice(2)\<close>.\<close>

definition argv_or_default :: "string list \<Rightarrow> string list option \<Rightarrow> string list" where
  "argv_or_default process_argv argv = (case argv of None \<Rightarrow> drop 2 process_argv | Some a \<Rightarrow> a)"

text \<open>
  One run of \<open>runCommand\<close>: how its promise settles, the world it leaves behind, the local
  \<open>cmd\<close> (\<open>None\<close> while the \<open>await\<close> has not produced a value) and the calls of
  \<open>invoke\<close> it made, each with the arguments passed and the way the call ended.
\<close>

record ('w, 'e) run =
  result :: "('e failure, jsval) promise"
  world :: 'w
  cmd :: "('w, 'e) loaded option"
  invoked :: "(Argv \<times> ('e, jsval) promise) list"

definition runCommand ::
  "(string list \<Rightarrow> Argv) \<Rightarrow> string list \<Rightarrow> ('w, 'e) Commands \<Rightarrow>
   string \<Rightarrow> string list option \<Rightarrow> jsval \<Rightarrow> 'w \<Rightarrow> ('w, 'e) run" where
  "runCommand mri process_argv commands command argv options w =
    (let args = mri (argv_or_default process_argv argv);
         args = set_prop args ''clear'' (JBool False)
     in case read_config options of
          Inl err \<Rightarrow> \<lparr>result = Rejected (TypeError err), world = w, cmd = None, invoked = []\<rparr>
        | Inr config \<Rightarrow>
            (let args = set_prop args ''config'' config
             in case commands command of
                  None \<Rightarrow>
                    \<lparr>result = Rejected (TypeError (Not_a_function ''commands[command]'')),
                     world = w, cmd = None, invoked = []\<rparr>
                | Some loader \<Rightarrow>
                    (case loader w of
                       (Pending, w1) \<Rightarrow>
                         \<lparr>result = Pending, world = w1, cmd = None, invoked = []\<rparr>
                     | (Rejected e, w1) \<Rightarrow>
                         \<lparr>result = Rejected (Foreign e), world = w1, cmd = None, invoked = []\<rparr>
                     | (Fulfilled c, w1) \<Rightarrow>
                         if \<not> truthy_cmd c then
                           \<lparr>result = Rejected (Error (''Invalid command '' @ command)),
                            world = w1, cmd = Some c, invoked = []\<rparr>
                         else
                           (case c of
                              Plain v \<Rightarrow>
                                \<lparr>result = Rejected (TypeError (Not_a_function ''cmd.invoke'')),
                                 world = w1, cmd = Some c, invoked = []\<rparr>
                            | Command nc \<Rightarrow>
                                (case invoke nc args w1 of
                                   (p, w2) \<Rightarrow>
                                     \<lparr>result = adopt p, world = w2, cmd = Some c,
                                      invoked = [(args, p)]\<rparr>)))))"

subsection \<open>Sample inputs\<close>

text \<open>
  What \<open>mri\<close> answers on the one command line with flags used below, and on command
  lines of positional arguments only.
\<close>

definition sample_mri :: "string list \<Rightarrow> Argv" where
  "sample_mri argv =
     (if argv = [''--clear'', ''--config'', ''alt.config.ts'', ''--port'', ''3000'']
      then [(''_'', JArr []), (''clear'', JBool True), (''config'', JStr ''alt.config.ts''),
            (''port'', JNum 3000)]
      else [(''_'', JArr (map JStr argv))])"

text \<open>The world of the samples is the list of things that happened, oldest first.\<close>

definition sample_dev :: "(string list, string) NuxtCommand" where
  "sample_dev = \<lparr>invoke = (\<lambda>args w. (Fulfilled JUndefined, w @ [''dev server started'']))\<rparr>"

definition sample_build :: "(string list, string) NuxtCommand" where
  "sample_build = \<lparr>invoke = (\<lambda>args w. (Rejected ''bundler failed'', w @ [''building'']))\<rparr>"

text \<open>
  A registry with two commands and one entry that is no command: of the methods an object
  literal inherits from \<open>Object.prototype\<close> the sample lists \<open>hasOwnProperty\<close>
  alone, which returns \<open>false\<close> when called without an argument. Every other name
  has no entry.
\<close>

definition sample_commands :: "(string list, string) Commands" where
  "sample_commands name =
     (if name = ''dev'' then
        Some (\<lambda>w. (Fulfilled (Command sample_dev), w @ [''import dev'']))
      else if name = ''build'' then
        Some (\<lambda>w. (Fulfilled (Command sample_build), w @ [''import build'']))
      else if name = ''hasOwnProperty'' then
        Some (\<lambda>w. (Fulfilled (Plain (JBool False)), w))
      else None)"

definition sample_argv :: "string list" where
  "sample_argv = [''--clear'', ''--config'', ''alt.config.ts'', ''--port'', ''3000'']"

definition sample_options :: jsval where
  "sample_options = JObj [(''config'', JStr ''nuxt.config.ts'')]"

section \<open>Properties\<close>

subsection \<open>Auxiliary facts\<close>

lemma get_prop_set_prop:
  "get_prop (set_prop obj k v) k' = (if k' = k then Some v else get_prop obj k')"
  by (induction obj) (auto simp: get_prop_def)

lemma adopt_never_own [simp]:
  "adopt p \<noteq> Rejected (Error m)" "adopt p \<noteq> Rejected (TypeError t)"
  by (cases p; simp)+

lemma adopt_Rejected_iff [simp]: "adopt p = Rejected (Foreign e) \<longleftrightarrow> p = Rejected e"
  by (cases p) simp_all

lemmas run_splits =
  sum.splits option.splits promise.splits loaded.splits prod.splits if_splits

lemmas sample_defs =
  runCommand_def argv_or_default_def get_prop_def
  sample_mri_def sample_dev_def sample_build_def sample_commands_def
  sample_argv_def sample_options_def

lemma read_config_defined:
  "(\<exists>config. read_config options = Inr config) \<longleftrightarrow> options \<noteq> JUndefined \<and> options \<noteq> JNull"
  by (cases options) simp_all

text \<open>A name without a registry entry never reaches the test of \<open>cmd\<close>.\<close>

lemma runCommand_no_entry:
  assumes "read_config options = Inr config" and "commands command = None"
  shows "runCommand mri process_argv commands command argv options w =
           \<lparr>result = Rejected (TypeError (Not_a_function ''commands[command]'')),
            world = w, cmd = None, invoked = []\<rparr>"
  using assms by (simp add: runCommand_def)

subsection \<open>Dispatch through the registry\<close>

text \<open>
  Claim C1, as amended. For every command name that the registry maps to a command, and for
  every \<open>options\<close> from which \<open>config\<close> can be read (anything but \<open>null\<close> and
  \<open>undefined\<close>), \<open>runCommand\<close> loads the command from the registry, calls its
  \<open>invoke\<close> once, on the arguments parsed from \<open>argv\<close> with \<open>clear\<close> and \<open>config\<close>
  set, and settles exactly as that call does; the world is the one \<open>invoke\<close> leaves.
  Nothing in the statement depends on which command it is: no subcommand is handled inline.
\<close>

theorem runCommand_dispatches:
  assumes "read_config options = Inr config"
    and "commands command = Some loader"
    and "loader w = (Fulfilled (Command c), w1)"
    and "invoke c (set_prop (set_prop (mri (argv_or_default process_argv argv))
                     ''clear'' (JBool False)) ''config'' config) w1 = (p, w2)"
  shows "runCommand mri process_argv commands command argv options w =
           \<lparr>result = adopt p, world = w2, cmd = Some (Command c),
            invoked = [(set_prop (set_prop (mri (argv_or_default process_argv argv))
                          ''clear'' (JBool False)) ''config'' config, p)]\<rparr>"
  using assms by (simp add: runCommand_def)

theorem runCommand_dispatches_witness:
  "read_config sample_options = Inr (JStr ''nuxt.config.ts'') \<and>
   sample_commands ''dev'' = Some (\<lambda>w. (Fulfilled (Command sample_dev), w @ [''import dev''])) \<and>
   runCommand sample_mri [] sample_commands ''dev'' (Some sample_argv) sample_options [] =
     \<lparr>result = Fulfilled JUndefined, world = [''import dev'', ''dev server started''],
      cmd = Some (Command sample_dev),
      invoked = [([(''_'', JArr []), (''clear'', JBool False),
                   (''config'', JStr ''nuxt.config.ts''), (''port'', JNum 3000)],
                  Fulfilled JUndefined)]\<rparr>"
proof -
  have h1: "read_config sample_options = Inr (JStr ''nuxt.config.ts'')"
    by (simp add: sample_options_def get_prop_def)
  have h2: "sample_commands ''dev'' =
              Some (\<lambda>w. (Fulfilled (Command sample_dev), w @ [''import dev'']))"
    by (simp add: sample_commands_def)
  have h3: "(\<lambda>w. (Fulfilled (Command sample_dev), w @ [''import dev''])) ([]::string list)
              = (Fulfilled (Command sample_dev), [''import dev''])"
    by simp
  have h4: "invoke sample_dev
              (set_prop (set_prop (sample_mri (argv_or_default [] (Some sample_argv)))
                 ''clear'' (JBool False)) ''config'' (JStr ''nuxt.config.ts'')) [''import dev'']
             = (Fulfilled JUndefined, [''import dev'', ''dev server started''])"
    by (simp add: sample_dev_def)
  show ?thesis
    using h1 h2 h3 h4
      runCommand_dispatches [where options = sample_options and config = "JStr ''nuxt.config.ts''"
        and commands = sample_commands and command = "''dev''"
        and loader = "\<lambda>w. (Fulfilled (Command sample_dev), w @ [''import dev''])"
        and w = "[]" and c = sample_dev and ?w1.0 = "[''import dev'']"
        and mri = sample_mri and process_argv = "[]" and argv = "Some sample_argv"
        and p = "Fulfilled JUndefined" and ?w2.0 = "[''import dev'', ''dev server started'']"]
    by (simp add: sample_mri_def sample_argv_def argv_or_default_def)
qed

text \<open>
  Without the proviso on \<open>options\<close> the statement fails: the registry maps \<open>dev\<close> to a
  command, yet with \<open>options = undefined\<close> the run ends in the \<open>TypeError\<close> of
  \<open>options.config\<close>, with the registry never asked and no command invoked.
\<close>

theorem runCommand_dispatches_counterexample:
  "sample_commands ''dev'' = Some (\<lambda>w. (Fulfilled (Command sample_dev), w @ [''import dev''])) \<and>
   runCommand sample_mri [] sample_commands ''dev'' (Some sample_argv) JUndefined [] =
     \<lparr>result = Rejected (TypeError (Cannot_read ''config'')), world = [],
      cmd = None, invoked = []\<rparr>"
  by (simp add: sample_commands_def runCommand_def)

subsection \<open>A name the registry does not have\<close>

text \<open>
  Claim C2 asks for the error \<open>Invalid command foo\<close> when \<open>foo\<close> is no command of the
  registry. The run for such a name ends earlier: \<open>commands[command]\<close> is \<open>undefined\<close>
  and calling it throws a \<open>TypeError\<close>, so the test \<open>!cmd\<close> and its error are never
  reached.
\<close>

theorem runCommand_unknown_name_type_error:
  "sample_commands ''foo'' = None \<and>
   result (runCommand sample_mri [] sample_commands ''foo'' (Some []) (JObj []) [])
     = Rejected (TypeError (Not_a_function ''commands[command]'')) \<and>
   result (runCommand sample_mri [] sample_commands ''foo'' (Some []) (JObj []) [])
     \<noteq> Rejected (Error ''Invalid command foo'')"
  by (simp add: sample_defs)

subsection \<open>Failures of the command\<close>

text \<open>
  A failed call of \<open>invoke\<close> appears in a run only as the call on the command loaded from
  the registry, and the world of the run is the one that call left.
\<close>

lemma invoke_failure_origin:
  assumes "(a, Rejected e)
             \<in> set (invoked (runCommand mri process_argv commands command argv options w))"
  shows "\<exists>config loader c w1.
           read_config options = Inr config \<and> commands command = Some loader \<and>
           loader w = (Fulfilled (Command c), w1) \<and>
           a = set_prop (set_prop (mri (argv_or_default process_argv argv))
                 ''clear'' (JBool False)) ''config'' config \<and>
           invoke c a w1
             = (Rejected e, world (runCommand mri process_argv commands command argv options w))"
  using assms
  by (auto simp: runCommand_def Let_def split: run_splits)

text \<open>
  Claim C3. When \<open>invoke(args)\<close> of the looked-up command fails with an error \<open>e\<close>,
  the run is rejected with \<open>e\<close> itself. The whole run is fixed by that one call: the
  world is left exactly as the failed call left it (nothing is caught, undone, repaired or
  done afterwards), and the call is the only call of \<open>invoke\<close> (no retry).
\<close>

theorem runCommand_forwards_invoke_failure:
  assumes "read_config options = Inr config"
    and "commands command = Some loader"
    and "loader w = (Fulfilled (Command c), w1)"
    and "invoke c (set_prop (set_prop (mri (argv_or_default process_argv argv))
                     ''clear'' (JBool False)) ''config'' config) w1 = (Rejected e, w2)"
  shows "runCommand mri process_argv commands command argv options w =
           \<lparr>result = Rejected (Foreign e), world = w2, cmd = Some (Command c),
            invoked = [(set_prop (set_prop (mri (argv_or_default process_argv argv))
                          ''clear'' (JBool False)) ''config'' config, Rejected e)]\<rparr>"
  using assms by (simp add: runCommand_def)

theorem runCommand_forwards_invoke_failure_witness:
  "read_config sample_options = Inr (JStr ''nuxt.config.ts'') \<and>
   sample_commands ''build''
     = Some (\<lambda>w. (Fulfilled (Command sample_build), w @ [''import build''])) \<and>
   invoke sample_build
      [(''_'', JArr []), (''clear'', JBool False), (''config'', JStr ''nuxt.config.ts'')]
      [''import build'']
     = (Rejected ''bundler failed'', [''import build'', ''building'']) \<and>
   runCommand sample_mri [] sample_commands ''build'' (Some []) sample_options [] =
     \<lparr>result = Rejected (Foreign ''bundler failed''),
      world = [''import build'', ''building''],
      cmd = Some (Command sample_build),
      invoked = [([(''_'', JArr []), (''clear'', JBool False),
                   (''config'', JStr ''nuxt.config.ts'')], Rejected ''bundler failed'')]\<rparr>"
proof -
  have h1: "read_config sample_options = Inr (JStr ''nuxt.config.ts'')"
    by (simp add: sample_options_def get_prop_def)
  have h2: "sample_commands ''build'' =
              Some (\<lambda>w. (Fulfilled (Command sample_build), w @ [''import build'']))"
    by (simp add: sample_commands_def)
  have h3: "(\<lambda>w. (Fulfilled (Command sample_build), w @ [''import build''])) ([]::string list)
              = (Fulfilled (Command sample_build), [''import build''])"
    by simp
  have h4: "invoke sample_build
              (set_prop (set_prop (sample_mri (argv_or_default [] (Some [])))
                 ''clear'' (JBool False)) ''config'' (JStr ''nuxt.config.ts'')) [''import build'']
             = (Rejected ''bundler failed'', [''import build'', ''building''])"
    by (simp add: sample_build_def)
  have h5: "invoke sample_build
              [(''_'', JArr []), (''clear'', JBool False), (''config'', JStr ''nuxt.config.ts'')]
              [''import build'']
             = (Rejected ''bundler failed'', [''import build'', ''building''])"
    by (simp add: sample_build_def)
  show ?thesis
    using h1 h2 h3 h4 h5
      runCommand_forwards_invoke_failure [where options = sample_options
        and config = "JStr ''nuxt.config.ts''"
        and commands = sample_commands and command = "''build''"
        and loader = "\<lambda>w. (Fulfilled (Command sample_build), w @ [''import build''])"
        and w = "[]" and c = sample_build and ?w1.0 = "[''import build'']"
        and mri = sample_mri and process_argv = "[]" and argv = "Some []"
        and e = "''bundler failed''" and ?w2.0 = "[''import build'', ''building'']"]
    by (simp add: sample_mri_def argv_or_default_def)
qed

subsection \<open>The arguments a command receives\<close>



text \<open>
  Claim C5. Every other key of the object passed to \<open>invoke\<close> is as the parser produced
  it from \<open>argv\<close>, present with the same value or absent alike.
\<close>

theorem runCommand_keeps_other_args:
  assumes "(a, p) \<in> set (invoked (runCommand mri process_argv commands command argv options w))"
    and "k \<noteq> ''clear''" and "k \<noteq> ''config''"
  shows "get_prop a k = get_prop (mri (argv_or_default process_argv argv)) k"
  using assms
  by (auto simp: runCommand_def Let_def get_prop_set_prop split: run_splits)

theorem runCommand_keeps_other_args_witness:
  "([(''_'', JArr []), (''clear'', JBool False), (''config'', JStr ''nuxt.config.ts''),
     (''port'', JNum 3000)], Fulfilled JUndefined)
     \<in> set (invoked (runCommand sample_mri [] sample_commands ''dev'' (Some sample_argv)
                      sample_options [])) \<and>
   ''port'' \<noteq> ''clear'' \<and> ''port'' \<noteq> ''config'' \<and>
   get_prop [(''_'', JArr []), (''clear'', JBool False), (''config'', JStr ''nuxt.config.ts''),
     (''port'', JNum 3000)] ''port'' = get_prop (sample_mri sample_argv) ''port'' \<and>
   get_prop (sample_mri sample_argv) ''port'' = Some (JNum 3000)"
proof -
  have h: "([(''_'', JArr []), (''clear'', JBool False), (''config'', JStr ''nuxt.config.ts''),
             (''port'', JNum 3000)], Fulfilled JUndefined)
           \<in> set (invoked (runCommand sample_mri [] sample_commands ''dev'' (Some sample_argv)
                            sample_options []))"
    by (simp add: sample_defs)
  have n1: "''port'' \<noteq> ''clear''" by simp
  have n2: "''port'' \<noteq> ''config''" by simp
  have g: "get_prop (sample_mri sample_argv) ''port'' = Some (JNum 3000)"
    by (simp add: sample_defs)
  show ?thesis
    using h g runCommand_keeps_other_args [OF h n1 n2] by (simp add: argv_or_default_def)
qed

subsection \<open>The error for an invalid command\<close>

text \<open>
  Claim C6, as amended. Let \<open>options\<close> be neither \<open>null\<close> nor \<open>undefined\<close> and let
  the registry have an entry for the command name. Then the run is rejected with the error
  \<open>Invalid command <command>\<close> exactly when awaiting that entry yields a falsy value
  instead of a command; and a run so rejected has called no \<open>invoke\<close> and leaves the
  world as the loader left it, so no command was executed. Names without an entry are not
  covered by this statement.
\<close>

theorem runCommand_invalid_command_iff:
  assumes "read_config options = Inr config"
    and "commands command = Some loader"
  shows "((result (runCommand mri process_argv commands command argv options w)
             = Rejected (Error (''Invalid command '' @ command)))
          = (\<exists>v w1. loader w = (Fulfilled v, w1) \<and> \<not> truthy_cmd v))
       \<and> (result (runCommand mri process_argv commands command argv options w)
             = Rejected (Error (''Invalid command '' @ command))
          \<longrightarrow> invoked (runCommand mri process_argv commands command argv options w) = []
              \<and> world (runCommand mri process_argv commands command argv options w)
                  = snd (loader w))"
  using assms
  by (auto simp: runCommand_def Let_def split: run_splits)

theorem runCommand_invalid_command_iff_witness:
  "read_config sample_options = Inr (JStr ''nuxt.config.ts'') \<and>
   sample_commands ''hasOwnProperty'' = Some (\<lambda>w. (Fulfilled (Plain (JBool False)), w)) \<and>
   result (runCommand sample_mri [] sample_commands ''hasOwnProperty'' (Some [])
             sample_options [''started''])
     = Rejected (Error ''Invalid command hasOwnProperty'') \<and>
   invoked (runCommand sample_mri [] sample_commands ''hasOwnProperty'' (Some [])
              sample_options [''started'']) = [] \<and>
   world (runCommand sample_mri [] sample_commands ''hasOwnProperty'' (Some [])
            sample_options [''started'']) = [''started''] \<and>
   sample_commands ''dev''
     = Some (\<lambda>w. (Fulfilled (Command sample_dev), w @ [''import dev''])) \<and>
   result (runCommand sample_mri [] sample_commands ''dev'' (Some [])
             sample_options [''started''])
     \<noteq> Rejected (Error ''Invalid command dev'')"
proof -
  have h1: "read_config sample_options = Inr (JStr ''nuxt.config.ts'')"
    by (simp add: sample_options_def get_prop_def)
  have h2: "sample_commands ''hasOwnProperty''
              = Some (\<lambda>w. (Fulfilled (Plain (JBool False)), w))"
    by (simp add: sample_commands_def)
  have h3: "sample_commands ''dev''
              = Some (\<lambda>w. (Fulfilled (Command sample_dev), w @ [''import dev'']))"
    by (simp add: sample_commands_def)
  show ?thesis
    using h1 h2 h3
      runCommand_invalid_command_iff [where options = sample_options
        and config = "JStr ''nuxt.config.ts''" and commands = sample_commands
        and command = "''hasOwnProperty''"
        and loader = "\<lambda>w. (Fulfilled (Plain (JBool False)), w)"
        and mri = sample_mri and process_argv = "[]" and argv = "Some []"
        and w = "[''started'']"]
      runCommand_invalid_command_iff [where options = sample_options
        and config = "JStr ''nuxt.config.ts''" and commands = sample_commands
        and command = "''dev''"
        and loader = "\<lambda>w. (Fulfilled (Command sample_dev), w @ [''import dev''])"
        and mri = sample_mri and process_argv = "[]" and argv = "Some []"
        and w = "[''started'']"]
    by simp
qed

text \<open>
  As first stated, for every \<open>options\<close> and every name, the equivalence fails in its
  \<open>if\<close> half. With \<open>options = undefined\<close> the entry \<open>hasOwnProperty\<close> would yield
  the falsy \<open>false\<close>, but the run ends before in the \<open>TypeError\<close> of
  \<open>options.config\<close>. For the name \<open>deploy\<close> the registry has nothing, so no command
  is yielded, and the run ends in the \<open>TypeError\<close> of the call instead.
\<close>

theorem runCommand_invalid_command_iff_counterexample:
  "sample_commands ''hasOwnProperty'' \<noteq> None \<and>
   the (sample_commands ''hasOwnProperty'') [] = (Fulfilled (Plain (JBool False)), []) \<and>
   \<not> truthy (JBool False) \<and>
   result (runCommand sample_mri [] sample_commands ''hasOwnProperty'' (Some []) JUndefined [])
     = Rejected (TypeError (Cannot_read ''config'')) \<and>
   sample_commands ''deploy'' = None \<and>
   result (runCommand sample_mri [] sample_commands ''deploy'' (Some []) sample_options [])
     = Rejected (TypeError (Not_a_function ''commands[command]''))"
  by (simp add: sample_defs)

end
